theory Spec2Isabelle
  imports Main
begin

section \<open>Data model\<close>

text \<open>
  The two DynamoDB tables of the server are modelled as finite maps from the key
  attribute to the remaining attributes of the item. Time is the millisecond clock
  \<open>Date.now()\<close>; every operation receives one reading \<open>now\<close> of it. A command to the
  store is executed as written, unless the document client or DynamoDB rejects it: the
  two rejections that the commands of this program meet are modelled in the section on
  the document client. Random values (\<open>crypto.randomBytes(32).toString('base64url')\<close>)
  and the answers of the Google client are parameters of the operations that consume them.
\<close>

subsection \<open>JavaScript truthiness of an optional string\<close>

text \<open>\<open>if (x)\<close> on a value of type \<open>string | undefined\<close>: false for \<open>undefined\<close> and for \<open>""\<close>.\<close>

fun truthy :: "string option \<Rightarrow> bool" where
  "truthy None = False"
| "truthy (Some s) = (s \<noteq> [])"

text \<open>\<open>a < b\<close> where \<open>a\<close> may be \<open>undefined\<close>: the comparison with \<open>NaN\<close> is false.\<close>

fun js_less :: "int option \<Rightarrow> int \<Rightarrow> bool" where
  "js_less None b = False"
| "js_less (Some a) b = (a < b)"

text \<open>\<open>s.split(' ')\<close> and \<open>xs.join(' ')\<close>.\<close>

fun split_on :: "char \<Rightarrow> string \<Rightarrow> string list" where
  "split_on c [] = [[]]"
| "split_on c (x # xs) =
     (if x = c then [] # split_on c xs
      else (case split_on c xs of w # ws \<Rightarrow> (x # w) # ws | [] \<Rightarrow> [[x]]))"

fun join_with :: "string \<Rightarrow> string list \<Rightarrow> string" where
  "join_with sep [] = []"
| "join_with sep [x] = x"
| "join_with sep (x # y # ys) = x @ sep @ join_with sep (y # ys)"

subsection \<open>auth-code-store.ts: AuthorizationCodeData\<close>

record googleTokens =
  gt_accessToken :: string
  gt_refreshToken :: "string option"
  gt_expiresAt :: int
  gt_userEmail :: "string option"

text \<open>The key attribute \<open>authCode\<close> is the key of the table.\<close>

record AuthorizationCodeData =
  ac_clientId :: string
  codeChallenge :: string
  redirectUri :: string
  ac_state :: "string option"
  googleAuthCode :: "string option"
  googleTokens :: "googleTokens option"
  scopes :: "string list option"
  ac_createdAt :: int
  ac_ttl :: int

type_synonym auth_code_table = "string \<rightharpoonup> AuthorizationCodeData"

subsection \<open>session-manager.ts: the items of the sessions table\<close>

text \<open>
  The sessions table holds two shapes of item under the key attribute \<open>sessionId\<close>:
  \<open>SessionData\<close> items, and the mapping items \<open>refresh:<token>\<close> that carry
  \<open>accessTokenSessionId\<close>. \<open>getSession\<close> reads either shape (\<open>result.Item as SessionData\<close>),
  and \<open>UpdateCommand\<close> sets single attributes, so an item is a record of optional
  attributes. \<open>mcpTokenExpiresAt\<close> is the attribute that \<open>exchangeAuthorizationCode\<close> and
  \<open>exchangeRefreshToken\<close> pass to \<open>saveSession\<close> next to the declared ones; the spread
  \<open>...sessionData\<close> stores it.
\<close>

record item =
  clientId :: "string option"
  userEmail :: "string option"
  accessToken :: "string option"
  refreshToken :: "string option"
  mcpRefreshToken :: "string option"
  expiresAt :: "int option"
  mcpTokenExpiresAt :: "int option"
  tokenType :: "string option"
  scope :: "string option"
  ttl :: "int option"
  createdAt :: "int option"
  updatedAt :: "int option"
  accessTokenSessionId :: "string option"

type_synonym session_table = "string \<rightharpoonup> item"

definition no_attributes :: item where
  "no_attributes =
     \<lparr>clientId = None, userEmail = None, accessToken = None, refreshToken = None,
      mcpRefreshToken = None, expiresAt = None, mcpTokenExpiresAt = None, tokenType = None,
      scope = None, ttl = None, createdAt = None, updatedAt = None,
      accessTokenSessionId = None\<rparr>"

subsection \<open>Errors\<close>

datatype upstream_error = RefreshTokenRevoked | TransientFailure

datatype error =
    AuthCodeNotFoundOrExpired
  | InvalidAuthorizationCode
  | GoogleAuthenticationNotCompleted
  | InvalidCodeVerifier
  | InvalidRefreshToken
  | FailedToRefreshGoogleAccessToken
  | InvalidOrExpiredAccessToken
  | FailedToLoadOAuthCredentials
  | UpstreamFailure upstream_error
  | TypeError
  | SessionNotFoundOrExpired
  | NoRefreshTokenAvailable
  | FailedToRefreshToken
  | UndefinedValueInItem
  | ValidationException

section \<open>The DynamoDB document client\<close>

text \<open>
  Both stores build their client as \<open>DynamoDBDocumentClient.from(dynamoClient)\<close>, without
  \<open>marshallOptions\<close>. An attribute of the item whose value is \<open>undefined\<close> is left out of
  the stored item. An \<open>undefined\<close> inside a nested map is refused: the command throws
  (\<open>Pass options.removeUndefinedValues=true ...\<close>) and nothing is written. The only nested
  map of this program is \<open>googleTokens\<close>; in an object that a caller builds
  (\<open>refreshToken: tokens.refresh_token || undefined\<close>) an optional field that is \<open>None\<close>
  is a key with the value \<open>undefined\<close>.
\<close>

definition nested_undefined :: "googleTokens option \<Rightarrow> bool" where
  "nested_undefined gt =
     (case gt of
        None \<Rightarrow> False
      | Some g \<Rightarrow> gt_refreshToken g = None \<or> gt_userEmail g = None)"

text \<open>
  DynamoDB rejects an \<open>UpdateExpression\<close> that uses a reserved word as an attribute name
  when the command gives no \<open>ExpressionAttributeNames\<close> for it
  (\<open>ValidationException\<close>), and then writes nothing. Of the attribute names in the update
  expressions of this program (\<open>accessToken\<close>, \<open>expiresAt\<close>, \<open>ttl\<close>, \<open>updatedAt\<close>),
  \<open>ttl\<close> is a reserved word.
\<close>

definition reserved_word :: "string \<Rightarrow> bool" where
  "reserved_word name = (name = ''ttl'')"

text \<open>\<open>UpdateCommand\<close> with \<open>SET\<close> assignments and no condition: the attributes are set, in
  order, on the item under the key, and an absent item is created with them.\<close>

definition UpdateCommand ::
  "session_table \<Rightarrow> string \<Rightarrow> (string \<times> (item \<Rightarrow> item)) list
     \<Rightarrow> session_table \<times> (error + unit)" where
  "UpdateCommand tbl key assignments =
     (if list_ex reserved_word (map fst assignments) then (tbl, Inl ValidationException)
      else
        (tbl(key \<mapsto>
           fold snd assignments (case tbl key of None \<Rightarrow> no_attributes | Some it \<Rightarrow> it)),
         Inr ()))"

section \<open>AuthCodeStore\<close>

definition TEN_MINUTES :: int where
  "TEN_MINUTES = 10 * 60"

definition TEN_MINUTES_MS :: int where
  "TEN_MINUTES_MS = 10 * 60 * 1000"

definition saveAuthCode ::
  "int \<Rightarrow> auth_code_table \<Rightarrow> string \<Rightarrow> AuthorizationCodeData
     \<Rightarrow> auth_code_table \<times> (error + unit)" where
  "saveAuthCode now tbl authCode data =
     (let ttl = now div 1000 + TEN_MINUTES
      in if nested_undefined (googleTokens data) then (tbl, Inl UndefinedValueInItem)
         else (tbl(authCode \<mapsto> data\<lparr>ac_createdAt := now, ac_ttl := ttl\<rparr>), Inr ()))"

definition deleteAuthCode :: "auth_code_table \<Rightarrow> string \<Rightarrow> auth_code_table" where
  "deleteAuthCode tbl authCode = tbl(authCode := None)"

definition getAuthCode ::
  "int \<Rightarrow> auth_code_table \<Rightarrow> string \<Rightarrow> auth_code_table \<times> AuthorizationCodeData option" where
  "getAuthCode now tbl authCode =
     (case tbl authCode of
        None \<Rightarrow> (tbl, None)
      | Some data \<Rightarrow>
          if now - ac_createdAt data > TEN_MINUTES_MS
          then (deleteAuthCode tbl authCode, None)
          else (tbl, Some data))"

definition updateWithGoogleTokens ::
  "int \<Rightarrow> auth_code_table \<Rightarrow> string \<Rightarrow> string \<Rightarrow> googleTokens
     \<Rightarrow> auth_code_table \<times> (error + unit)" where
  "updateWithGoogleTokens now tbl authCode googleAuthCode' googleTokens' =
     (case getAuthCode now tbl authCode of
        (tbl1, None) \<Rightarrow> (tbl1, Inl AuthCodeNotFoundOrExpired)
      | (tbl1, Some existingData) \<Rightarrow>
          if nested_undefined (Some googleTokens') then (tbl1, Inl UndefinedValueInItem)
          else
            (tbl1(authCode \<mapsto>
               existingData\<lparr>googleAuthCode := Some googleAuthCode',
                             googleTokens := Some googleTokens'\<rparr>),
             Inr ()))"

section \<open>SessionManager\<close>

definition NINETY_DAYS :: int where
  "NINETY_DAYS = 90 * 24 * 60 * 60"

definition refresh_key :: "string \<Rightarrow> string" where
  "refresh_key tok = ''refresh:'' @ tok"

definition saveSession :: "int \<Rightarrow> session_table \<Rightarrow> string \<Rightarrow> item \<Rightarrow> session_table" where
  "saveSession now tbl sessionId sessionData =
     (let ttl' = now div 1000 + NINETY_DAYS;
          it = sessionData\<lparr>ttl := Some ttl', createdAt := Some now, updatedAt := Some now\<rparr>;
          tbl1 = tbl(sessionId \<mapsto> it)
      in if truthy (mcpRefreshToken sessionData)
         then tbl1(refresh_key (the (mcpRefreshToken sessionData)) \<mapsto>
                no_attributes\<lparr>accessTokenSessionId := Some sessionId, ttl := Some ttl',
                               createdAt := Some now, updatedAt := Some now\<rparr>)
         else tbl1)"

definition deleteSession :: "session_table \<Rightarrow> string \<Rightarrow> session_table" where
  "deleteSession tbl sessionId = tbl(sessionId := None)"

definition getSession :: "int \<Rightarrow> session_table \<Rightarrow> string \<Rightarrow> session_table \<times> item option" where
  "getSession now tbl sessionId =
     (case tbl sessionId of
        None \<Rightarrow> (tbl, None)
      | Some session \<Rightarrow>
          if js_less (expiresAt session) now
          then (deleteSession tbl sessionId, None)
          else (tbl, Some session))"

text \<open>\<open>UpdateExpression: 'SET accessToken = :token, expiresAt = :expires, ttl = :ttl,
  updatedAt = :updated'\<close>, with \<open>ExpressionAttributeValues\<close> only.\<close>

definition updateAccessToken ::
  "int \<Rightarrow> session_table \<Rightarrow> string \<Rightarrow> string \<Rightarrow> int \<Rightarrow> session_table \<times> (error + unit)" where
  "updateAccessToken now tbl sessionId accessToken' expiresAt' =
     (let ttl' = now div 1000 + NINETY_DAYS
      in UpdateCommand tbl sessionId
           [(''accessToken'', \<lambda>it. it\<lparr>accessToken := Some accessToken'\<rparr>),
            (''expiresAt'', \<lambda>it. it\<lparr>expiresAt := Some expiresAt'\<rparr>),
            (''ttl'', \<lambda>it. it\<lparr>ttl := Some ttl'\<rparr>),
            (''updatedAt'', \<lambda>it. it\<lparr>updatedAt := Some now\<rparr>)])"

text \<open>The session found under a refresh token, with the \<open>sessionId\<close> it is stored under.\<close>

definition getSessionByRefreshToken ::
  "int \<Rightarrow> session_table \<Rightarrow> string \<Rightarrow> session_table \<times> (string \<times> item) option" where
  "getSessionByRefreshToken now tbl refreshToken' =
     (case tbl (refresh_key refreshToken') of
        None \<Rightarrow> (tbl, None)
      | Some mapping \<Rightarrow>
          if \<not> truthy (accessTokenSessionId mapping) then (tbl, None)
          else
            (let accessTokenSessionId' = the (accessTokenSessionId mapping)
             in case getSession now tbl accessTokenSessionId' of
                  (tbl1, None) \<Rightarrow> (tbl1, None)
                | (tbl1, Some session) \<Rightarrow> (tbl1, Some (accessTokenSessionId', session))))"

text \<open>The class \<open>SessionManager\<close> has the methods above and \<open>isSessionValid\<close>; it has no
  method \<open>extendSession\<close>. The call \<open>this.sessionManager.extendSession(token, 30)\<close> of
  \<open>verifyAccessToken\<close> therefore throws a \<open>TypeError\<close> (\<open>extendSession is not a function\<close>)
  and writes nothing.\<close>

definition extendSession ::
  "int \<Rightarrow> session_table \<Rightarrow> string \<Rightarrow> int \<Rightarrow> session_table \<times> (error + unit)" where
  "extendSession now tbl sessionId extensionDays = (tbl, Inl TypeError)"

section \<open>The Google OAuth client\<close>

text \<open>
  What the provider consumes from \<open>googleapis\<close>. \<open>getGoogleOAuthClient\<close> throws an
  \<open>AuthenticationError\<close> when the credentials cannot be loaded; \<open>refreshAccessToken\<close> and
  \<open>revokeToken\<close> either throw or answer. Whether a thrown error reports a revoked refresh
  token or a transient failure is kept in the error value, so that a dependence of the
  provider on it can be stated.
\<close>

record credentials =
  cred_access_token :: "string option"
  expiry_date :: "int option"

record google_client =
  clientAvailable :: bool
  google_refreshAccessToken :: "string option \<Rightarrow> upstream_error + credentials"
  google_revokeToken :: "string option \<Rightarrow> upstream_error + unit"

text \<open>\<open>credentials.expiry_date || Date.now() + (3600 * 1000)\<close>\<close>

definition expiry_or_default :: "int option \<Rightarrow> int \<Rightarrow> int" where
  "expiry_or_default e now =
     (case e of
        None \<Rightarrow> now + 3600 * 1000
      | Some d \<Rightarrow> if d = 0 then now + 3600 * 1000 else d)"

section \<open>GoogleOAuthProvider\<close>

record OAuthTokens =
  access_token :: string
  token_type :: string
  expires_in :: int
  refresh_token :: "string option"
  tokens_scope :: "string option"

record AuthInfo =
  token :: string
  info_clientId :: string
  info_scopes :: "string list"

record store =
  authCodes :: auth_code_table
  sessions :: session_table

text \<open>
  \<open>exchangeAuthorizationCode(client, authorizationCode, codeVerifier)\<close>. The parameter
  \<open>sha256_base64url\<close> stands for
  \<open>crypto.createHash('sha256').update(v).digest('base64url')\<close>; \<open>accessToken'\<close> and
  \<open>mcpRefreshToken'\<close> are the two values drawn from \<open>crypto.randomBytes\<close>.
\<close>

definition exchangeAuthorizationCode ::
  "(string \<Rightarrow> string) \<Rightarrow> string \<Rightarrow> string \<Rightarrow> int \<Rightarrow> store \<Rightarrow> string \<Rightarrow> string
     \<Rightarrow> string option \<Rightarrow> store \<times> (error + OAuthTokens)" where
  "exchangeAuthorizationCode sha256_base64url accessToken' mcpRefreshToken' now st
       client_id authorizationCode codeVerifier =
     (case getAuthCode now (authCodes st) authorizationCode of
        (codes1, None) \<Rightarrow> (st\<lparr>authCodes := codes1\<rparr>, Inl InvalidAuthorizationCode)
      | (codes1, Some authData) \<Rightarrow>
          (let st1 = st\<lparr>authCodes := codes1\<rparr> in
           if ac_clientId authData \<noteq> client_id then (st1, Inl InvalidAuthorizationCode)
           else
             (case googleTokens authData of
                None \<Rightarrow> (st1, Inl GoogleAuthenticationNotCompleted)
              | Some g \<Rightarrow>
                  if truthy codeVerifier
                     \<and> sha256_base64url (the codeVerifier) \<noteq> codeChallenge authData
                  then (st1, Inl InvalidCodeVerifier)
                  else
                    (let expiresIn = 30 * 24 * 60 * 60;
                         mcpTokenExpiresAt' = now + expiresIn * 1000;
                         st2 =
                           (if truthy (gt_userEmail g)
                            then st1\<lparr>sessions :=
                                   saveSession now (sessions st1) accessToken'
                                     \<lparr>clientId = Some client_id,
                                      userEmail = gt_userEmail g,
                                      accessToken = Some (gt_accessToken g),
                                      refreshToken = gt_refreshToken g,
                                      mcpRefreshToken = Some mcpRefreshToken',
                                      expiresAt = Some (gt_expiresAt g),
                                      mcpTokenExpiresAt = Some mcpTokenExpiresAt',
                                      tokenType = Some ''Bearer'',
                                      scope = Some ''https://www.googleapis.com/auth/contacts.readonly'',
                                      ttl = None, createdAt = None, updatedAt = None,
                                      accessTokenSessionId = None\<rparr>\<rparr>
                            else st1);
                         st3 = st2\<lparr>authCodes := deleteAuthCode (authCodes st2) authorizationCode\<rparr>
                     in (st3,
                         Inr \<lparr>access_token = accessToken',
                              token_type = ''Bearer'',
                              expires_in = expiresIn,
                              refresh_token = Some mcpRefreshToken',
                              tokens_scope = map_option (join_with '' '') (scopes authData)\<rparr>)))))"

text \<open>\<open>exchangeRefreshToken(_client, refreshToken)\<close>; \<open>newAccessToken\<close> is the value drawn
  from \<open>crypto.randomBytes\<close>.\<close>

definition exchangeRefreshToken ::
  "google_client \<Rightarrow> string \<Rightarrow> int \<Rightarrow> session_table \<Rightarrow> string
     \<Rightarrow> session_table \<times> (error + OAuthTokens)" where
  "exchangeRefreshToken g newAccessToken now tbl refreshToken' =
     (case getSessionByRefreshToken now tbl refreshToken' of
        (tbl1, None) \<Rightarrow> (tbl1, Inl InvalidRefreshToken)
      | (tbl1, Some (sessionId, session)) \<Rightarrow>
          if \<not> clientAvailable g then (tbl1, Inl FailedToLoadOAuthCredentials)
          else
            (case google_refreshAccessToken g (refreshToken session) of
               Inl e \<Rightarrow> (tbl1, Inl (UpstreamFailure e))
             | Inr creds \<Rightarrow>
                 if \<not> truthy (cred_access_token creds)
                 then (tbl1, Inl FailedToRefreshGoogleAccessToken)
                 else
                   (let expiresIn = 30 * 24 * 60 * 60;
                        googleTokenExpiresAt = expiry_or_default (expiry_date creds) now;
                        mcpTokenExpiresAt' = now + expiresIn * 1000
                    in case updateAccessToken now tbl1 sessionId
                              (the (cred_access_token creds)) googleTokenExpiresAt of
                         (tbl2, Inl e) \<Rightarrow> (tbl2, Inl e)
                       | (tbl2, Inr u) \<Rightarrow>
                           (let tbl3 = saveSession now tbl2 newAccessToken
                                  \<lparr>clientId = clientId session,
                                   userEmail = userEmail session,
                                   accessToken = cred_access_token creds,
                                   refreshToken = refreshToken session,
                                   mcpRefreshToken = Some refreshToken',
                                   expiresAt = Some googleTokenExpiresAt,
                                   mcpTokenExpiresAt = Some mcpTokenExpiresAt',
                                   tokenType = Some ''Bearer'',
                                   scope = scope session,
                                   ttl = None, createdAt = None, updatedAt = None,
                                   accessTokenSessionId = None\<rparr>
                            in (tbl3,
                                Inr \<lparr>access_token = newAccessToken,
                                     token_type = ''Bearer'',
                                     expires_in = expiresIn,
                                     refresh_token = Some refreshToken',
                                     tokens_scope = scope session\<rparr>)))))"

text \<open>The \<open>try\<close> block of \<open>verifyAccessToken\<close>: every failure inside it, that of
  \<open>updateAccessToken\<close> included, is logged and dropped.\<close>

definition autoRefresh ::
  "google_client \<Rightarrow> int \<Rightarrow> session_table \<Rightarrow> string \<Rightarrow> item \<Rightarrow> session_table" where
  "autoRefresh g now tbl token' session =
     (if \<not> clientAvailable g then tbl
      else
        (case google_refreshAccessToken g (refreshToken session) of
           Inl e \<Rightarrow> tbl
         | Inr creds \<Rightarrow>
             if truthy (cred_access_token creds)
             then fst (updateAccessToken now tbl token' (the (cred_access_token creds))
                         (expiry_or_default (expiry_date creds) now))
             else tbl))"

definition verifyAccessToken ::
  "google_client \<Rightarrow> int \<Rightarrow> session_table \<Rightarrow> string \<Rightarrow> session_table \<times> (error + AuthInfo)" where
  "verifyAccessToken g now tbl token' =
     (case getSession now tbl token' of
        (tbl1, None) \<Rightarrow> (tbl1, Inl InvalidOrExpiredAccessToken)
      | (tbl1, Some session) \<Rightarrow>
          (let expiryBuffer = 5 * 60 * 1000;
               needsRefresh =
                 (case expiresAt session of
                    None \<Rightarrow> False
                  | Some e \<Rightarrow> e - now < expiryBuffer);
               tbl2 = (if needsRefresh \<and> truthy (refreshToken session)
                       then autoRefresh g now tbl1 token' session
                       else tbl1)
           in case extendSession now tbl2 token' 30 of
                (tbl3, Inl e) \<Rightarrow> (tbl3, Inl e)
              | (tbl3, Inr u) \<Rightarrow>
                  (case scope session of
                     None \<Rightarrow> (tbl3, Inl TypeError)
                   | Some sc \<Rightarrow>
                       (tbl3,
                        Inr \<lparr>token = token',
                             info_clientId =
                               (if truthy (clientId session) then the (clientId session)
                                else ''unknown''),
                             info_scopes = split_on (CHR '' '') sc\<rparr>))))"

text \<open>\<open>revokeToken(_client, request)\<close> with \<open>token = request.token\<close>. The whole body is
  inside one \<open>try\<close>; the \<open>catch\<close> logs and returns.\<close>

definition revokeToken ::
  "google_client \<Rightarrow> int \<Rightarrow> session_table \<Rightarrow> string \<Rightarrow> session_table \<times> (error + unit)" where
  "revokeToken g now tbl token' =
     (case getSession now tbl token' of
        (tbl1, None) \<Rightarrow> (tbl1, Inr ())
      | (tbl1, Some session) \<Rightarrow>
          if \<not> clientAvailable g then (tbl1, Inr ())
          else
            (case google_revokeToken g (accessToken session) of
               Inl e \<Rightarrow> (tbl1, Inr ())
             | Inr u \<Rightarrow> (deleteSession tbl1 token', Inr ())))"

section \<open>OAuthService\<close>

text \<open>The older service class works on the same sessions table. Its \<open>refreshAccessToken\<close>
  and \<open>revokeSession\<close> are the sibling paths of \<open>exchangeRefreshToken\<close> and \<open>revokeToken\<close>.\<close>

definition refreshAccessToken ::
  "google_client \<Rightarrow> int \<Rightarrow> session_table \<Rightarrow> string \<Rightarrow> session_table \<times> (error + string)" where
  "refreshAccessToken g now tbl sessionId =
     (case getSession now tbl sessionId of
        (tbl1, None) \<Rightarrow> (tbl1, Inl SessionNotFoundOrExpired)
      | (tbl1, Some session) \<Rightarrow>
          if \<not> truthy (refreshToken session) then (tbl1, Inl NoRefreshTokenAvailable)
          else if \<not> clientAvailable g then (tbl1, Inl FailedToLoadOAuthCredentials)
          else
            (case google_refreshAccessToken g (refreshToken session) of
               Inl e \<Rightarrow> (deleteSession tbl1 sessionId, Inl FailedToRefreshToken)
             | Inr creds \<Rightarrow>
                 if \<not> truthy (cred_access_token creds)
                 then (deleteSession tbl1 sessionId, Inl FailedToRefreshToken)
                 else
                   (case updateAccessToken now tbl1 sessionId (the (cred_access_token creds))
                           (expiry_or_default (expiry_date creds) now) of
                      (tbl2, Inl e) \<Rightarrow> (deleteSession tbl2 sessionId, Inl FailedToRefreshToken)
                    | (tbl2, Inr u) \<Rightarrow> (tbl2, Inr (the (cred_access_token creds))))))"

text \<open>Here only the call to Google is inside the \<open>try\<close>; \<open>deleteSession\<close> follows it.\<close>

definition revokeSession ::
  "google_client \<Rightarrow> int \<Rightarrow> session_table \<Rightarrow> string \<Rightarrow> session_table \<times> (error + unit)" where
  "revokeSession g now tbl sessionId =
     (case getSession now tbl sessionId of
        (tbl1, None) \<Rightarrow> (tbl1, Inr ())
      | (tbl1, Some session) \<Rightarrow>
          if \<not> clientAvailable g then (deleteSession tbl1 sessionId, Inr ())
          else
            (case google_revokeToken g (accessToken session) of
               Inl e \<Rightarrow> (deleteSession tbl1 sessionId, Inr ())
             | Inr u \<Rightarrow> (deleteSession tbl1 sessionId, Inr ())))"

section \<open>Example data\<close>

text \<open>The digest is a parameter of \<open>exchangeAuthorizationCode\<close>. The examples pass a function
  that has the value of SHA-256/base64url at the empty string and tags every other input.\<close>

definition sample_digest :: "string \<Rightarrow> string" where
  "sample_digest v =
     (if v = [] then ''47DEQpj8HBSa-_TImW-5JCeuQeRkm5NMpJWZG3hSuFU'' else ''S256:'' @ v)"

definition tokens1 :: googleTokens where
  "tokens1 = \<lparr>gt_accessToken = ''ya29.g1'', gt_refreshToken = Some ''1//g1'',
              gt_expiresAt = 3600000, gt_userEmail = Some ''alice@example.com''\<rparr>"

definition code1 :: AuthorizationCodeData where
  "code1 = \<lparr>ac_clientId = ''client-1'', codeChallenge = ''S256:verifier-1'',
            redirectUri = ''https://claude.ai/callback'', ac_state = Some ''xyz'',
            googleAuthCode = Some ''U1'', googleTokens = Some tokens1,
            scopes = Some [''contacts.readonly''], ac_createdAt = 0, ac_ttl = 600\<rparr>"

definition store1 :: store where
  "store1 = \<lparr>authCodes = [''K1'' \<mapsto> code1], sessions = Map.empty\<rparr>"

text \<open>The authorization code \<open>K1\<close> before the callback from Google.\<close>

definition pending1 :: AuthorizationCodeData where
  "pending1 = code1\<lparr>googleAuthCode := None, googleTokens := None\<rparr>"


text \<open>The session and the mapping item that the exchange of \<open>K1\<close> at time 0 writes for the
  random values \<open>A1\<close> and \<open>R1\<close>.\<close>

definition session1 :: item where
  "session1 =
     \<lparr>clientId = Some ''client-1'', userEmail = Some ''alice@example.com'',
      accessToken = Some ''ya29.g1'', refreshToken = Some ''1//g1'',
      mcpRefreshToken = Some ''R1'', expiresAt = Some 3600000,
      mcpTokenExpiresAt = Some 2592000000, tokenType = Some ''Bearer'',
      scope = Some ''https://www.googleapis.com/auth/contacts.readonly'',
      ttl = Some 7776000, createdAt = Some 0, updatedAt = Some 0,
      accessTokenSessionId = None\<rparr>"

definition mapping1 :: item where
  "mapping1 = no_attributes\<lparr>accessTokenSessionId := Some ''A1'', ttl := Some 7776000,
                             createdAt := Some 0, updatedAt := Some 0\<rparr>"

definition sessions1 :: session_table where
  "sessions1 = [''A1'' \<mapsto> session1, ''refresh:R1'' \<mapsto> mapping1]"

definition google_up :: google_client where
  "google_up =
     \<lparr>clientAvailable = True,
      google_refreshAccessToken =
        (\<lambda>rt. Inr \<lparr>cred_access_token = Some ''ya29.g2'', expiry_date = Some 10800000\<rparr>),
      google_revokeToken = (\<lambda>t. Inr ())\<rparr>"

definition google_failing :: "upstream_error \<Rightarrow> google_client" where
  "google_failing e =
     \<lparr>clientAvailable = True,
      google_refreshAccessToken = (\<lambda>rt. Inl e),
      google_revokeToken = (\<lambda>t. Inl e)\<rparr>"

section \<open>Facts about the two stores\<close>

lemma getSession_Some:
  assumes "snd (getSession now tbl k) = Some s"
  shows "getSession now tbl k = (tbl, Some s)"
    and "tbl k = Some s"
    and "\<not> js_less (expiresAt s) now"
  using assms
  by (auto simp: getSession_def split: option.splits if_splits)

lemma getSession_ignores_mcpTokenExpiresAt:
  "snd (getSession now (tbl(k \<mapsto> s\<lparr>mcpTokenExpiresAt := x\<rparr>)) k)
     = (if js_less (expiresAt s) now then None else Some (s\<lparr>mcpTokenExpiresAt := x\<rparr>))"
  by (simp add: getSession_def)

lemma getSessionByRefreshToken_Some:
  assumes "snd (getSessionByRefreshToken now tbl rt) = Some (sid, s)"
  shows "getSessionByRefreshToken now tbl rt = (tbl, Some (sid, s))"
    and "tbl sid = Some s"
    and "\<exists>m. tbl (refresh_key rt) = Some m \<and> accessTokenSessionId m = Some sid"
    and "\<not> js_less (expiresAt s) now"
proof -
  from assms obtain m where m: "tbl (refresh_key rt) = Some m" "truthy (accessTokenSessionId m)"
    by (auto simp: getSessionByRefreshToken_def split: option.splits if_splits)
  then obtain k where k: "accessTokenSessionId m = Some k"
    by (cases "accessTokenSessionId m") auto
  from assms m k have g: "snd (getSession now tbl k) = Some s" and eq: "k = sid"
    by (auto simp: getSessionByRefreshToken_def Let_def split: prod.splits option.splits)
  note gs = getSession_Some [OF g]
  from gs m k eq
  show "getSessionByRefreshToken now tbl rt = (tbl, Some (sid, s))"
    and "tbl sid = Some s"
    and "\<exists>m. tbl (refresh_key rt) = Some m \<and> accessTokenSessionId m = Some sid"
    and "\<not> js_less (expiresAt s) now"
    by (auto simp: getSessionByRefreshToken_def Let_def)
qed

lemma updateAccessToken_rejected:
  "updateAccessToken now tbl sessionId tok e = (tbl, Inl ValidationException)"
  by (simp add: updateAccessToken_def UpdateCommand_def reserved_word_def)

lemma autoRefresh_unchanged:
  "autoRefresh g now tbl tok s = tbl"
  by (simp add: autoRefresh_def updateAccessToken_rejected split: sum.splits)

lemma sessions1_lookup:
  "snd (getSession 1000 sessions1 ''A1'') = Some session1"
  "snd (getSessionByRefreshToken 1000 sessions1 ''R1'') = Some (''A1'', session1)"
  by (simp_all add: getSessionByRefreshToken_def getSession_def sessions1_def session1_def
      mapping1_def no_attributes_def refresh_key_def Let_def)

section \<open>Ephemeral code store\<close>

text \<open>What \<open>updateWithGoogleTokens\<close> does when the document client accepts the item: it fails
  with \<open>Authorization code not found or expired\<close> for an absent or expired record, and
  otherwise overwrites \<open>googleAuthCode\<close> and \<open>googleTokens\<close> only.\<close>

lemma updateWithGoogleTokens_frame:
  "(tbl authCode = None \<longrightarrow>
      updateWithGoogleTokens now tbl authCode gc gt = (tbl, Inl AuthCodeNotFoundOrExpired))
   \<and> (\<forall>d. tbl authCode = Some d \<and> now - ac_createdAt d > 10 * 60 * 1000 \<longrightarrow>
      updateWithGoogleTokens now tbl authCode gc gt
        = (tbl(authCode := None), Inl AuthCodeNotFoundOrExpired))
   \<and> (\<forall>d. tbl authCode = Some d \<and> now - ac_createdAt d \<le> 10 * 60 * 1000
          \<and> gt_refreshToken gt \<noteq> None \<and> gt_userEmail gt \<noteq> None \<longrightarrow>
      (\<exists>d'. updateWithGoogleTokens now tbl authCode gc gt = (tbl(authCode \<mapsto> d'), Inr ())
         \<and> d' = d\<lparr>googleAuthCode := Some gc, googleTokens := Some gt\<rparr>
         \<and> ac_ttl d' = ac_ttl d \<and> ac_createdAt d' = ac_createdAt d
         \<and> ac_clientId d' = ac_clientId d \<and> codeChallenge d' = codeChallenge d
         \<and> redirectUri d' = redirectUri d \<and> ac_state d' = ac_state d
         \<and> scopes d' = scopes d))"
  by (simp add: updateWithGoogleTokens_def getAuthCode_def deleteAuthCode_def
      TEN_MINUTES_MS_def nested_undefined_def)

lemma updateWithGoogleTokens_undefined:
  assumes "tbl authCode = Some d"
    and "now - ac_createdAt d \<le> 10 * 60 * 1000"
    and "gt_refreshToken gt = None \<or> gt_userEmail gt = None"
  shows "updateWithGoogleTokens now tbl authCode gc gt = (tbl, Inl UndefinedValueInItem)"
  using assms
  by (simp add: updateWithGoogleTokens_def getAuthCode_def TEN_MINUTES_MS_def
      nested_undefined_def)

text \<open>
  C9. \<open>updateWithGoogleTokens\<close> (the spec's \<open>complete\<close>) is to overwrite the upstream fields
  of a live record. The authorization code \<open>K1\<close> is five seconds old and waits for the
  callback; Google answers without a refresh token, so \<open>handleGoogleCallback\<close> passes
  \<open>refreshToken: undefined\<close> inside \<open>googleTokens\<close>. The document client refuses the item:
  the call fails with an error that is not the not-found error, and the record is as it
  was, without upstream fields.
\<close>

theorem updateWithGoogleTokens_refuses_undefined:
  "updateWithGoogleTokens 5000 [''K1'' \<mapsto> pending1] ''K1'' ''U1''
       (tokens1\<lparr>gt_refreshToken := None\<rparr>)
     = ([''K1'' \<mapsto> pending1], Inl UndefinedValueInItem)
   \<and> googleTokens pending1 = None
   \<and> googleAuthCode pending1 = None"
  by (simp add: updateWithGoogleTokens_def getAuthCode_def TEN_MINUTES_MS_def
      nested_undefined_def pending1_def code1_def tokens1_def)

section \<open>Session store\<close>

text \<open>Every item that \<open>saveSession\<close> writes, the session item and (for a non-empty MCP refresh
  token) the mapping item \<open>refresh:<token>\<close>, has \<open>ttl = floor(now / 1000) + 90 days\<close>,
  whatever \<open>expiresAt\<close> and \<open>mcpTokenExpiresAt\<close> are.\<close>

lemma saveSession_ttl:
  "(\<forall>k. saveSession now tbl sessionId sd k \<noteq> tbl k \<longrightarrow>
        (\<exists>it. saveSession now tbl sessionId sd k = Some it
              \<and> ttl it = Some (now div 1000 + 90 * 24 * 60 * 60)))
   \<and> (\<exists>it. saveSession now tbl sessionId sd sessionId = Some it
            \<and> ttl it = Some (now div 1000 + 90 * 24 * 60 * 60))
   \<and> (truthy (mcpRefreshToken sd) \<longrightarrow>
        (\<exists>it. saveSession now tbl sessionId sd (refresh_key (the (mcpRefreshToken sd))) = Some it
              \<and> accessTokenSessionId it = Some sessionId
              \<and> ttl it = Some (now div 1000 + 90 * 24 * 60 * 60)))"
  by (simp add: saveSession_def NINETY_DAYS_def Let_def)

text \<open>
  C10. \<open>saveSession\<close> stamps what it writes with a \<open>ttl\<close> of 90 days from the moment of
  writing: saved at 1700000000123, the example session and its mapping item carry
  \<open>ttl = 1707776000\<close>. \<open>updateAccessToken\<close> is to re-extend that \<open>ttl\<close>, but its update
  expression names the reserved word \<open>ttl\<close>: one hour later the call is rejected and the
  \<open>ttl\<close> of the session is the old one.
\<close>

theorem updateAccessToken_leaves_ttl:
  "map_option ttl (saveSession 1700000000123 Map.empty ''A1'' session1 ''A1'')
     = Some (Some 1707776000)
   \<and> map_option ttl (saveSession 1700000000123 Map.empty ''A1'' session1 ''refresh:R1'')
     = Some (Some 1707776000)
   \<and> snd (updateAccessToken 1700003600123
            (saveSession 1700000000123 Map.empty ''A1'' session1)
            ''A1'' ''ya29.g2'' 1700007200123)
     = Inl ValidationException
   \<and> map_option ttl
        (fst (updateAccessToken 1700003600123
               (saveSession 1700000000123 Map.empty ''A1'' session1)
               ''A1'' ''ya29.g2'' 1700007200123) ''A1'')
     = Some (Some 1707776000)"
  by (simp add: updateAccessToken_def UpdateCommand_def reserved_word_def saveSession_def
      NINETY_DAYS_def refresh_key_def session1_def Let_def)

section \<open>Token bridge: exchange of the authorization code\<close>

text \<open>
  C6. For a stored authorization code that is not older than ten minutes, belongs to the
  requesting client and has been completed with Google tokens, and a verifier whose digest
  equals the stored code challenge, \<open>exchangeAuthorizationCode\<close> succeeds; it deletes the
  code record, every later lookup of the code returns absent, and every later exchange of
  the same code, whatever its other arguments, fails with \<open>Invalid authorization code\<close>
  (the spec's \<open>InvalidGrant\<close>).
\<close>

theorem exchange_single_use:
  assumes "authCodes st code = Some a"
    and "now - ac_createdAt a \<le> 10 * 60 * 1000"
    and "ac_clientId a = client"
    and "googleTokens a = Some g"
    and "sha v = codeChallenge a"
  shows "snd (exchangeAuthorizationCode sha at rt now st client code (Some v))
           = Inr \<lparr>access_token = at, token_type = ''Bearer'', expires_in = 30 * 24 * 60 * 60,
                  refresh_token = Some rt,
                  tokens_scope = map_option (join_with '' '') (scopes a)\<rparr>
         \<and> authCodes (fst (exchangeAuthorizationCode sha at rt now st client code (Some v))) code
           = None
         \<and> (\<forall>now'. snd (getAuthCode now'
                (authCodes (fst (exchangeAuthorizationCode sha at rt now st client code (Some v))))
                code) = None)
         \<and> (\<forall>sha' at' rt' now' client' v'.
               snd (exchangeAuthorizationCode sha' at' rt' now'
                      (fst (exchangeAuthorizationCode sha at rt now st client code (Some v)))
                      client' code v')
                 = Inl InvalidAuthorizationCode)"
  using assms
  by (simp add: exchangeAuthorizationCode_def getAuthCode_def deleteAuthCode_def
      TEN_MINUTES_MS_def Let_def)

text \<open>The code \<open>K1\<close> of the example store, exchanged one second after its creation and
  presented again a second later.\<close>

theorem exchange_single_use_witness:
  "authCodes store1 ''K1'' = Some code1
   \<and> sample_digest ''verifier-1'' = codeChallenge code1
   \<and> snd (exchangeAuthorizationCode sample_digest ''A1'' ''R1'' 1000 store1 ''client-1'' ''K1''
            (Some ''verifier-1''))
       = Inr \<lparr>access_token = ''A1'', token_type = ''Bearer'', expires_in = 2592000,
              refresh_token = Some ''R1'', tokens_scope = Some ''contacts.readonly''\<rparr>
   \<and> snd (exchangeAuthorizationCode sample_digest ''A2'' ''R2'' 2000
            (fst (exchangeAuthorizationCode sample_digest ''A1'' ''R1'' 1000 store1 ''client-1''
                    ''K1'' (Some ''verifier-1'')))
            ''client-1'' ''K1'' (Some ''verifier-1''))
       = Inl InvalidAuthorizationCode"
proof -
  have h: "authCodes store1 ''K1'' = Some code1" "1000 - ac_createdAt code1 \<le> 10 * 60 * 1000"
    "ac_clientId code1 = ''client-1''" "googleTokens code1 = Some tokens1"
    "sample_digest ''verifier-1'' = codeChallenge code1"
    by (simp_all add: store1_def code1_def sample_digest_def)
  have sc: "map_option (join_with '' '') (scopes code1) = Some ''contacts.readonly''"
    by (simp add: code1_def)
  from exchange_single_use [where st = store1 and code = "''K1''" and a = code1
      and now = 1000 and client = "''client-1''" and g = tokens1 and sha = sample_digest
      and v = "''verifier-1''" and at = "''A1''" and rt = "''R1''"] h sc
  show ?thesis
    by simp
qed




text \<open>
  C8. Whenever a non-empty code verifier is supplied to \<open>exchangeAuthorizationCode\<close> and its
  digest differs from the code challenge stored with the authorization-code record, the
  call fails; and for a record that is live, belongs to the client and is completed, the
  call fails with \<open>Invalid code verifier\<close> exactly when the digest and the stored challenge
  differ, and succeeds when they are equal. (An empty verifier is treated as none.)
\<close>

theorem pkce_check:
  assumes "authCodes st code = Some a" and "v \<noteq> []"
  shows "(sha v \<noteq> codeChallenge a \<longrightarrow>
            isl (snd (exchangeAuthorizationCode sha at rt now st client code (Some v))))
         \<and> (now - ac_createdAt a \<le> 10 * 60 * 1000 \<and> ac_clientId a = client
              \<and> googleTokens a \<noteq> None \<longrightarrow>
             (sha v \<noteq> codeChallenge a \<longrightarrow>
                exchangeAuthorizationCode sha at rt now st client code (Some v)
                  = (st, Inl InvalidCodeVerifier))
             \<and> (sha v = codeChallenge a \<longrightarrow>
                \<not> isl (snd (exchangeAuthorizationCode sha at rt now st client code (Some v)))))"
  using assms
  by (auto simp: exchangeAuthorizationCode_def getAuthCode_def deleteAuthCode_def
      TEN_MINUTES_MS_def Let_def split: option.splits)

text \<open>The code \<open>K1\<close> with a wrong verifier and with the right one.\<close>

theorem pkce_check_witness:
  "sample_digest ''guess'' \<noteq> codeChallenge code1
   \<and> exchangeAuthorizationCode sample_digest ''A1'' ''R1'' 1000 store1 ''client-1'' ''K1''
        (Some ''guess'')
       = (store1, Inl InvalidCodeVerifier)
   \<and> sample_digest ''verifier-1'' = codeChallenge code1
   \<and> \<not> isl (snd (exchangeAuthorizationCode sample_digest ''A1'' ''R1'' 1000 store1 ''client-1''
                   ''K1'' (Some ''verifier-1'')))"
proof -
  have h: "authCodes store1 ''K1'' = Some code1"
    and live: "1000 - ac_createdAt code1 \<le> 10 * 60 * 1000 \<and> ac_clientId code1 = ''client-1''
               \<and> googleTokens code1 \<noteq> None"
    and wrong: "sample_digest ''guess'' \<noteq> codeChallenge code1" "''guess'' \<noteq> []"
    and right: "sample_digest ''verifier-1'' = codeChallenge code1" "''verifier-1'' \<noteq> []"
    by (simp_all add: store1_def code1_def sample_digest_def)
  from pkce_check [where st = store1 and code = "''K1''" and a = code1 and v = "''guess''"
      and sha = sample_digest and now = 1000 and client = "''client-1''" and at = "''A1''"
      and rt = "''R1''"] h live wrong
  have 1: "exchangeAuthorizationCode sample_digest ''A1'' ''R1'' 1000 store1 ''client-1'' ''K1''
             (Some ''guess'') = (store1, Inl InvalidCodeVerifier)"
    by blast
  from pkce_check [where st = store1 and code = "''K1''" and a = code1
      and v = "''verifier-1''" and sha = sample_digest and now = 1000
      and client = "''client-1''" and at = "''A1''" and rt = "''R1''"] h live right
  have 2: "\<not> isl (snd (exchangeAuthorizationCode sample_digest ''A1'' ''R1'' 1000 store1
                         ''client-1'' ''K1'' (Some ''verifier-1'')))"
    by blast
  from 1 2 wrong(1) right(1) show ?thesis
    by blast
qed

text \<open>The claim as the spec words it covers every supplied verifier. With the empty string
  as verifier the digest differs from the challenge of \<open>K1\<close>, and the exchange succeeds:
  \<open>if (codeVerifier)\<close> skips the comparison.\<close>

theorem empty_verifier_counterexample:
  "sample_digest [] \<noteq> codeChallenge code1
   \<and> snd (exchangeAuthorizationCode sample_digest ''A1'' ''R1'' 0 store1 ''client-1'' ''K1''
            (Some []))
       = Inr \<lparr>access_token = ''A1'', token_type = ''Bearer'', expires_in = 2592000,
              refresh_token = Some ''R1'', tokens_scope = Some ''contacts.readonly''\<rparr>"
  by (simp add: exchangeAuthorizationCode_def getAuthCode_def deleteAuthCode_def
      store1_def code1_def tokens1_def sample_digest_def TEN_MINUTES_MS_def Let_def)

section \<open>Token bridge: refresh\<close>

text \<open>
  C4. When the upstream token refresh inside \<open>exchangeRefreshToken\<close> fails, the failure is
  propagated to the caller and the session table is left as it was, with the session
  record in place, whatever the upstream reports: a revoked or invalid refresh token and a
  transient failure are treated alike.
\<close>

theorem refresh_failure_keeps_session:
  assumes "snd (getSessionByRefreshToken now tbl rt) = Some (sid, s)"
    and "clientAvailable g"
    and "google_refreshAccessToken g (refreshToken s) = Inl e"
  shows "exchangeRefreshToken g newAccessToken now tbl rt = (tbl, Inl (UpstreamFailure e))
         \<and> tbl sid = Some s"
  using getSessionByRefreshToken_Some(1,2) [OF assms(1)] assms(2,3)
  by (simp add: exchangeRefreshToken_def)

text \<open>The example session, refreshed through \<open>R1\<close> while Google fails transiently, and
  while Google reports the refresh token as revoked.\<close>

theorem refresh_failure_keeps_session_witness:
  "snd (getSessionByRefreshToken 1000 sessions1 ''R1'') = Some (''A1'', session1)
   \<and> clientAvailable (google_failing TransientFailure)
   \<and> exchangeRefreshToken (google_failing TransientFailure) ''A2'' 1000 sessions1 ''R1''
       = (sessions1, Inl (UpstreamFailure TransientFailure))
   \<and> clientAvailable (google_failing RefreshTokenRevoked)
   \<and> exchangeRefreshToken (google_failing RefreshTokenRevoked) ''A2'' 1000 sessions1 ''R1''
       = (sessions1, Inl (UpstreamFailure RefreshTokenRevoked))
   \<and> sessions1 ''A1'' = Some session1"
proof -
  have c: "clientAvailable (google_failing e)"
    and f: "google_refreshAccessToken (google_failing e) (refreshToken session1) = Inl e"
    for e
    by (simp_all add: google_failing_def)
  from refresh_failure_keeps_session [OF sessions1_lookup(2) c f, of TransientFailure "''A2''"]
    refresh_failure_keeps_session [OF sessions1_lookup(2) c f, of RefreshTokenRevoked "''A2''"]
    sessions1_lookup(2) c
  show ?thesis
    by simp
qed

text \<open>The claim as the spec words it has the session deleted when Google reports the refresh
  token as revoked. The provider does not look at the error: the session is still there.\<close>

theorem refresh_revoked_counterexample:
  "exchangeRefreshToken (google_failing RefreshTokenRevoked) ''A2'' 1000 sessions1 ''R1''
     = (sessions1, Inl (UpstreamFailure RefreshTokenRevoked))
   \<and> sessions1 ''A1'' = Some session1"
  by (simp add: exchangeRefreshToken_def getSessionByRefreshToken_def getSession_def
      sessions1_def session1_def mapping1_def no_attributes_def google_failing_def
      refresh_key_def Let_def)

text \<open>The sibling path \<open>OAuthService.refreshAccessToken\<close> deletes the session on every failure
  of the upstream refresh; it does not look at the error either. When the upstream
  refresh succeeds, the rejected \<open>updateAccessToken\<close> lands in the same \<open>catch\<close>.\<close>

lemma refreshAccessToken_failure_deletes:
  assumes "snd (getSession now tbl sid) = Some s"
    and "truthy (refreshToken s)"
    and "clientAvailable g"
    and "google_refreshAccessToken g (refreshToken s) = Inl e"
  shows "refreshAccessToken g now tbl sid = (tbl(sid := None), Inl FailedToRefreshToken)"
  using getSession_Some(1) [OF assms(1)] assms(2-4)
  by (simp add: refreshAccessToken_def deleteSession_def)

lemma refreshAccessToken_always_deletes:
  assumes "snd (getSession now tbl sid) = Some s"
    and "truthy (refreshToken s)"
    and "clientAvailable g"
  shows "refreshAccessToken g now tbl sid = (tbl(sid := None), Inl FailedToRefreshToken)"
  using getSession_Some(1) [OF assms(1)] assms(2,3)
  by (simp add: refreshAccessToken_def deleteSession_def updateAccessToken_rejected
      split: sum.splits)

text \<open>No call of \<open>exchangeRefreshToken\<close> returns tokens: when Google has answered with an
  access token, \<open>updateAccessToken\<close> is called first and is rejected.\<close>

lemma exchangeRefreshToken_never_succeeds:
  "isl (snd (exchangeRefreshToken g newAccessToken now tbl rt))"
  by (simp add: exchangeRefreshToken_def updateAccessToken_rejected Let_def
      split: prod.splits option.splits sum.splits)

text \<open>
  C7. A refresh is to return the presented refresh token with a freshly drawn access
  value and to point the mapping item \<open>refresh:<token>\<close> at the new session. The example
  session is refreshed through \<open>R1\<close> at time 1000, with \<open>A2\<close> as the drawn value; Google
  answers with a new access token. \<open>exchangeRefreshToken\<close> fails with the rejection of
  \<open>updateAccessToken\<close>: no tokens are returned, the table is as it was, no session is stored
  under \<open>A2\<close>, and the mapping item still points at \<open>A1\<close>.
\<close>

theorem refresh_rejected_by_store:
  "snd (getSessionByRefreshToken 1000 sessions1 ''R1'') = Some (''A1'', session1)
   \<and> google_refreshAccessToken google_up (refreshToken session1)
       = Inr \<lparr>cred_access_token = Some ''ya29.g2'', expiry_date = Some 10800000\<rparr>
   \<and> exchangeRefreshToken google_up ''A2'' 1000 sessions1 ''R1''
       = (sessions1, Inl ValidationException)
   \<and> sessions1 ''A2'' = None
   \<and> map_option accessTokenSessionId (sessions1 ''refresh:R1'') = Some (Some ''A1'')"
  by (simp add: exchangeRefreshToken_def getSessionByRefreshToken_def getSession_def
      updateAccessToken_def UpdateCommand_def reserved_word_def
      sessions1_def session1_def mapping1_def no_attributes_def google_up_def
      refresh_key_def expiry_or_default_def Let_def)

section \<open>Token bridge: verification and revocation\<close>

text \<open>For every session that \<open>getSession\<close> returns, \<open>verifyAccessToken\<close> fails at the call of
  \<open>extendSession\<close> and leaves the table as it was.\<close>

lemma verifyAccessToken_live:
  assumes "snd (getSession now tbl tok) = Some s"
  shows "verifyAccessToken g now tbl tok = (tbl, Inl TypeError)"
  using getSession_Some(1) [OF assms]
  by (simp add: verifyAccessToken_def extendSession_def autoRefresh_unchanged Let_def)

text \<open>
  C1. \<open>verifyAccessToken\<close> is to succeed for a session that the presented token reaches, and
  to slide its downstream expiry to 30 days from now. The example session is verified one
  second after issuance, and again at 3500000, when the Google token is within five minutes
  of its expiry: \<open>getSession\<close> returns it, and the call
  \<open>this.sessionManager.extendSession(token, 30)\<close> throws, because \<open>SessionManager\<close> has no
  such method. The verification fails, and \<open>mcpTokenExpiresAt\<close> is what it was.
\<close>

theorem verify_fails_on_live_session:
  "snd (getSession 1000 sessions1 ''A1'') = Some session1
   \<and> verifyAccessToken google_up 1000 sessions1 ''A1'' = (sessions1, Inl TypeError)
   \<and> verifyAccessToken google_up 3500000 sessions1 ''A1'' = (sessions1, Inl TypeError)
   \<and> map_option mcpTokenExpiresAt (sessions1 ''A1'') = Some (Some 2592000000)"
  by (simp add: verifyAccessToken_def extendSession_def getSession_def autoRefresh_def
      updateAccessToken_def UpdateCommand_def reserved_word_def google_up_def
      sessions1_def session1_def Let_def)

text \<open>
  C2. \<open>getSession\<close> compares \<open>expiresAt\<close>, the expiry of the Google access token, with the
  clock; it never reads \<open>mcpTokenExpiresAt\<close>. The session that the exchange of \<open>K1\<close> at
  time 0 issues has a Google token expiring after one hour and a downstream expiry after
  30 days. Two hours after issuance \<open>getSession\<close> deletes it and returns nothing, and
  \<open>verifyAccessToken\<close> fails with \<open>Invalid or expired access token\<close>.
\<close>

theorem getSession_lapses_with_google_token:
  "sessions (fst (exchangeAuthorizationCode sample_digest ''A1'' ''R1'' 0 store1 ''client-1''
                    ''K1'' (Some ''verifier-1''))) = sessions1
   \<and> map_option mcpTokenExpiresAt (sessions1 ''A1'') = Some (Some 2592000000)
   \<and> snd (getSession 7200000 sessions1 ''A1'') = None
   \<and> fst (getSession 7200000 sessions1 ''A1'') ''A1'' = None
   \<and> snd (verifyAccessToken google_up 7200000 sessions1 ''A1'')
       = Inl InvalidOrExpiredAccessToken"
  by (simp add: exchangeAuthorizationCode_def getAuthCode_def deleteAuthCode_def
      saveSession_def store1_def code1_def tokens1_def sample_digest_def TEN_MINUTES_MS_def
      NINETY_DAYS_def refresh_key_def no_attributes_def mapping1_def
      verifyAccessToken_def getSession_def deleteSession_def session1_def
      sessions1_def Let_def)

text \<open>
  C5. \<open>revokeToken\<close> calls \<open>deleteSession\<close> inside the \<open>try\<close> block, after the call to Google.
  When Google's revocation fails, \<open>revokeToken\<close> returns normally and the session record
  is still in the table.
\<close>

theorem revoke_keeps_session_when_google_fails:
  "revokeToken (google_failing TransientFailure) 1000 sessions1 ''A1'' = (sessions1, Inr ())
   \<and> sessions1 ''A1'' = Some session1"
  by (simp add: revokeToken_def getSession_def sessions1_def session1_def google_failing_def)

text \<open>\<open>revokeToken\<close> never fails its caller, and the sibling path \<open>OAuthService.revokeSession\<close>
  deletes the session whatever Google answers.\<close>

lemma revokeToken_never_fails:
  "snd (revokeToken g now tbl tok) = Inr ()"
  by (simp add: revokeToken_def getSession_def split: option.splits sum.splits)

lemma revokeSession_deletes:
  assumes "snd (getSession now tbl sid) = Some s"
  shows "revokeSession g now tbl sid = (tbl(sid := None), Inr ())"
  using getSession_Some(1) [OF assms]
  by (simp add: revokeSession_def deleteSession_def split: sum.splits)

end
